theory Spec2Isabelle
  imports Complex_Main "HOL-Library.Sublist" "HOL-Library.Multiset"
begin

section \<open>Data model\<close>

text \<open>
  Strings are byte lists; a JavaScript \<open>null\<close> or \<open>undefined\<close> is \<open>None\<close>. A segment's
  \<open>text\<close> is the field \<open>text_of\<close>, and the metadata's \<open>duration\<close> (a string, as in
  \<open>utils/llm.ts\<close>) is \<open>videoDuration\<close>, next to the segment's \<open>duration\<close> in seconds.
\<close>

record TranscriptSegment =
  start :: real
  duration :: real
  text_of :: string

record VideoMetadata =
  title :: string
  channelName :: string
  description :: "string option"
  uploadDate :: "string option"
  viewCount :: "string option"
  videoDuration :: "string option"

text \<open>
  Modelled from the spec: the interface \<open>TranscriptResult\<close> is declared in
  \<open>contentScript/youtubeTranscript.ts\<close>, which is missing. The spec gives a tagged outcome,
  Success with videoId, transcript and metadata, or Failure with error; the fields below are
  the ones the content script, the background handler and the panel read
  (\<open>result.success\<close>, \<open>result.videoId\<close>, \<open>result.transcript?.length\<close>,
  \<open>result.metadata?.title\<close>, \<open>result.error\<close>).
\<close>

record TranscriptResult =
  success :: bool
  videoId :: "string option"
  transcript :: "TranscriptSegment list option"
  metadata :: "VideoMetadata option"
  error :: "string option"

text \<open>
  The \<open>{type, payload}\<close> envelopes, one constructor per message kind: the members of the enum
  \<open>WorkerMessageTypes\<close> with the payload each one carries, and \<open>'seekVideo'\<close>, which the
  content script compares as a plain string.
\<close>

datatype Message =
    SidebarLoaded bool
  | PanelState
  | TranscriptLoaded TranscriptResult
  | TranscriptError "string option"
  | SendChatMessage string
  | ChatResponse string
  | GetTranscript
  | TranscriptResponse
  | NavigationStarted "string option"
  | NoVideoPage
  | TabStateRequest
  | SeekVideo "real option"

text \<open>
  What \<open>sendResponse\<close> is given for \<open>getTranscript\<close>:
  \<open>{success: true, data}\<close> or \<open>{success: false, error}\<close>.
\<close>

datatype Response =
    SuccessData TranscriptResult
  | FailureError string

section \<open>The content script\<close>

subsection \<open>\<open>window.location\<close> and the video identifier\<close>

record Location =
  href :: string
  hostname :: string
  pathname :: string
  search :: string

text \<open>The substring test \<open>s.includes(p)\<close> of JavaScript strings.\<close>

fun string_includes :: "string \<Rightarrow> string \<Rightarrow> bool" where
  "string_includes [] p = (p = [])"
| "string_includes (c # cs) p = (prefix p (c # cs) \<or> string_includes cs p)"

definition isYouTubeVideoPage :: "Location \<Rightarrow> bool" where
  "isYouTubeVideoPage loc \<longleftrightarrow>
     hostname loc = ''www.youtube.com'' \<and>
     pathname loc = ''/watch'' \<and>
     string_includes (search loc) ''v=''"

text \<open>
  \<open>new URLSearchParams(search)\<close> is the browser's form-urlencoded parser: one leading
  \<open>?\<close> is dropped, the rest is split at \<open>&\<close>, empty pieces are skipped, each piece is split
  at its first \<open>=\<close>, \<open>+\<close> becomes a space and \<open>%HH\<close> becomes the byte \<open>HH\<close>. The result is
  kept as bytes (the browser's final UTF-8 decoding replaces byte sequences that are not
  UTF-8, which is not modelled). \<open>get\<close> returns the value of the first pair with the name.
\<close>

fun splitOn :: "char \<Rightarrow> string \<Rightarrow> string list" where
  "splitOn d [] = [[]]"
| "splitOn d (c # cs) =
     (if c = d then [] # splitOn d cs
      else (case splitOn d cs of p # ps \<Rightarrow> (c # p) # ps | [] \<Rightarrow> [[c]]))"

definition hexDigit :: "char \<Rightarrow> nat option" where
  "hexDigit c =
     (let n = (of_char c :: nat) in
      if 48 \<le> n \<and> n \<le> 57 then Some (n - 48)
      else if 65 \<le> n \<and> n \<le> 70 then Some (n - 55)
      else if 97 \<le> n \<and> n \<le> 102 then Some (n - 87)
      else None)"

fun percentDecode :: "string \<Rightarrow> string" where
  "percentDecode (c # h # l # cs) =
     (case (if c = CHR ''%'' then hexDigit h else None, hexDigit l) of
        (Some a, Some b) \<Rightarrow> char_of (16 * a + b) # percentDecode cs
      | _ \<Rightarrow> c # percentDecode (h # l # cs))"
| "percentDecode cs = cs"

definition plusToSpace :: "string \<Rightarrow> string" where
  "plusToSpace = map (\<lambda>c. if c = CHR ''+'' then CHR '' '' else c)"

definition parsePair :: "string \<Rightarrow> string \<times> string" where
  "parsePair piece =
     (let name = takeWhile (\<lambda>c. c \<noteq> CHR ''='') piece;
          val = drop (Suc (length name)) piece
      in (percentDecode (plusToSpace name), percentDecode (plusToSpace val)))"

definition URLSearchParams :: "string \<Rightarrow> (string \<times> string) list" where
  "URLSearchParams init =
     map parsePair
       (filter (\<lambda>piece. piece \<noteq> [])
          (splitOn CHR ''&''
             (case init of c # cs \<Rightarrow> if c = CHR ''?'' then cs else init | [] \<Rightarrow> [])))"

definition URLSearchParams_get :: "(string \<times> string) list \<Rightarrow> string \<Rightarrow> string option" where
  "URLSearchParams_get params name = map_of params name"

definition getVideoId :: "Location \<Rightarrow> string option" where
  "getVideoId loc = URLSearchParams_get (URLSearchParams (search loc)) ''v''"

subsection \<open>State and handlers\<close>

text \<open>
  The module variables \<open>currentVideoId\<close>, \<open>transcriptCache\<close> and \<open>lastUrl\<close>, together with
  what the script shares with its surroundings: the page's \<open>window.location\<close>, the number of
  \<open>setTimeout\<close> callbacks not yet run (each of them calls \<open>extractAndSendTranscript\<close>), the
  calls of \<open>extractAndSendTranscript\<close> suspended at \<open>await extractVideoTranscript()\<close> (each
  holds the \<open>videoId\<close> it read before the call), the log of the calls of
  \<open>extractVideoTranscript\<close> made so far, and the messages handed to
  \<open>chrome.runtime.sendMessage\<close>.
\<close>

record ContentState =
  location :: Location
  currentVideoId :: "string option"
  transcriptCache :: "TranscriptResult option"
  lastUrl :: string
  timers :: nat
  pending :: "string option list"
  extractions :: "string option list"
  sent :: "Message list"

definition sendMessage :: "Message \<Rightarrow> ContentState \<Rightarrow> ContentState" where
  "sendMessage m s = s\<lparr>sent := sent s @ [m]\<rparr>"

text \<open>
  \<open>extractAndSendTranscript\<close> up to its \<open>await\<close>: it returns at once on a cache hit, and
  otherwise calls \<open>extractVideoTranscript\<close> and suspends.
\<close>

definition extractAndSendTranscript :: "ContentState \<Rightarrow> ContentState" where
  "extractAndSendTranscript s =
     (let videoId = getVideoId (location s) in
      if videoId = currentVideoId s \<and> transcriptCache s \<noteq> None then s
      else s\<lparr>pending := pending s @ [videoId],
             extractions := extractions s @ [videoId]\<rparr>)"

text \<open>
  The rest of \<open>extractAndSendTranscript\<close>, run when the awaited promise of the suspended
  call number \<open>i\<close> is fulfilled with \<open>result\<close>.
\<close>

definition extractionResolved :: "nat \<Rightarrow> TranscriptResult \<Rightarrow> ContentState \<Rightarrow> ContentState" where
  "extractionResolved i result s =
     (if i < length (pending s) then
        (let s1 = s\<lparr>pending := take i (pending s) @ drop (Suc i) (pending s),
                     currentVideoId := pending s ! i,
                     transcriptCache := Some result\<rparr>
         in if success result then sendMessage (TranscriptLoaded result) s1
            else sendMessage (TranscriptError (error result)) s1)
      else s)"

text \<open>
  The \<open>catch\<close> branch, run when the awaited promise is rejected: with an \<open>Error\<close> object
  (\<open>Some\<close> of its message) or with any other value (\<open>None\<close>).
\<close>

definition extractionRejected :: "nat \<Rightarrow> string option \<Rightarrow> ContentState \<Rightarrow> ContentState" where
  "extractionRejected i thrown s =
     (if i < length (pending s) then
        sendMessage
          (TranscriptError (Some (case thrown of Some msg \<Rightarrow> msg | None \<Rightarrow> ''Unknown error'')))
          (s\<lparr>pending := take i (pending s) @ drop (Suc i) (pending s)\<rparr>)
      else s)"

definition initializeContentScript :: "ContentState \<Rightarrow> ContentState" where
  "initializeContentScript s =
     (let s1 = sendMessage (SidebarLoaded True) s in
      if isYouTubeVideoPage (location s1) then s1\<lparr>timers := Suc (timers s1)\<rparr> else s1)"

text \<open>The callback given to \<open>MutationObserver\<close>.\<close>

definition observerCallback :: "ContentState \<Rightarrow> ContentState" where
  "observerCallback s =
     (let url = href (location s) in
      if url \<noteq> lastUrl s then
        (let s1 = s\<lparr>lastUrl := url\<rparr> in
         if isYouTubeVideoPage (location s1) then
           s1\<lparr>currentVideoId := None, transcriptCache := None, timers := Suc (timers s1)\<rparr>
         else
           s1\<lparr>currentVideoId := None, transcriptCache := None\<rparr>)
      else s)"

text \<open>
  The listener of \<open>chrome.runtime.onMessage\<close> in the page: the response it sends, if any, and
  the state after it. \<open>seekVideo\<close> acts on the page's video element only, which is no part of
  \<open>ContentState\<close>.
\<close>

definition onMessage :: "Message \<Rightarrow> ContentState \<Rightarrow> Response option \<times> ContentState" where
  "onMessage message s =
     (case message of
        GetTranscript \<Rightarrow>
          (case transcriptCache s of
             Some cached \<Rightarrow> (Some (SuccessData cached), s)
           | None \<Rightarrow> (Some (FailureError ''No transcript available''), s))
      | _ \<Rightarrow> (None, s))"

subsection \<open>The page as an event loop\<close>

text \<open>
  One event is one task of the page's single thread: the page changes its URL, the observer
  is called, the document becomes ready, a timer runs out, an awaited extraction settles, or a
  message arrives. A timer event without a timer and a settlement without a suspended call
  cannot happen and leave the state as it is.
\<close>

datatype Event =
    Navigate Location
  | Mutation
  | DomReady
  | TimerFires
  | Resolved nat TranscriptResult
  | Rejected nat "string option"
  | Request Message

fun step :: "ContentState \<Rightarrow> Event \<Rightarrow> ContentState" where
  "step s (Navigate loc) = s\<lparr>location := loc\<rparr>"
| "step s Mutation = observerCallback s"
| "step s DomReady = initializeContentScript s"
| "step s TimerFires =
     (if timers s = 0 then s else extractAndSendTranscript (s\<lparr>timers := timers s - 1\<rparr>))"
| "step s (Resolved i result) = extractionResolved i result s"
| "step s (Rejected i thrown) = extractionRejected i thrown s"
| "step s (Request message) = snd (onMessage message s)"

definition run :: "ContentState \<Rightarrow> Event list \<Rightarrow> ContentState" where
  "run = foldl step"

definition loadPage :: "Location \<Rightarrow> ContentState" where
  "loadPage loc =
     \<lparr>location = loc, currentVideoId = None, transcriptCache = None, lastUrl = href loc,
      timers = 0, pending = [], extractions = [], sent = []\<rparr>"

section \<open>The background script\<close>

datatype Role = User | Assistant

record ChatMessage =
  role :: Role
  content :: string
  timestamp :: int

text \<open>
  The two module-level maps of \<open>transcript-handler.ts\<close>, keyed by tab id (a JavaScript
  number).
\<close>

record BackgroundState =
  transcriptStore :: "int \<rightharpoonup> TranscriptResult"
  chatHistoryStore :: "int \<rightharpoonup> ChatMessage list"

text \<open>
  What a handler does besides changing the two maps: a message passed on with
  \<open>chrome.runtime.sendMessage\<close>, or a call of \<open>sendResponse\<close>.
\<close>

datatype Action =
    Forward Message
  | Respond Response

text \<open>
  The listener of \<open>chrome.runtime.onMessage\<close> in the background. \<open>tabId\<close> is
  \<open>sender.tab?.id\<close>; \<open>currentTabId\<close> is \<open>tabs[0]?.id\<close> as \<open>chrome.tabs.query\<close> reports it
  and \<open>now\<close> is \<open>Date.now()\<close>, both read in the callback of the query, which is run here
  together with the listener. \<open>if (tabId)\<close> holds for a number other than 0.
\<close>

definition backgroundOnMessage ::
  "Message \<Rightarrow> int option \<Rightarrow> int option \<Rightarrow> int \<Rightarrow> BackgroundState \<Rightarrow> BackgroundState \<times> Action list"
where
  "backgroundOnMessage message tabId currentTabId now s =
     (case message of
        TranscriptLoaded payload \<Rightarrow>
          (case tabId of
             None \<Rightarrow> (s, [])
           | Some t \<Rightarrow>
               if t = 0 then (s, [])
               else
                 (let previousTranscript = transcriptStore s t;
                      isNewVideo = (Option.bind previousTranscript videoId \<noteq> videoId payload);
                      s1 = s\<lparr>transcriptStore := (transcriptStore s)(t \<mapsto> payload)\<rparr>
                  in (if isNewVideo \<and> chatHistoryStore s1 t \<noteq> None then
                        s1\<lparr>chatHistoryStore := (chatHistoryStore s1)(t := None)\<rparr>
                      else s1,
                      [Forward (TranscriptLoaded payload)])))
      | TranscriptError payload \<Rightarrow> (s, [Forward (TranscriptError payload)])
      | GetTranscript \<Rightarrow>
          (case currentTabId of
             None \<Rightarrow> (s, [Respond (FailureError ''No transcript available for current tab'')])
           | Some c \<Rightarrow>
               (case (if c = 0 then None else transcriptStore s c) of
                  Some stored \<Rightarrow> (s, [Respond (SuccessData stored)])
                | None \<Rightarrow>
                    (s, [Respond (FailureError ''No transcript available for current tab'')])))
      | SendChatMessage question \<Rightarrow>
          (case currentTabId of
             None \<Rightarrow> (s, [])
           | Some c \<Rightarrow>
               if c = 0 then (s, [])
               else
                 (let history = (case chatHistoryStore s c of Some h \<Rightarrow> h | None \<Rightarrow> [])
                  in (s\<lparr>chatHistoryStore := (chatHistoryStore s)
                          (c \<mapsto> history @ [\<lparr>role = User, content = question, timestamp = now\<rparr>])\<rparr>,
                      [])))
      | ChatResponse response \<Rightarrow>
          (case currentTabId of
             None \<Rightarrow> (s, [])
           | Some c \<Rightarrow>
               if c = 0 then (s, [])
               else
                 (let history = (case chatHistoryStore s c of Some h \<Rightarrow> h | None \<Rightarrow> [])
                  in (s\<lparr>chatHistoryStore := (chatHistoryStore s)
                          (c \<mapsto> history @ [\<lparr>role = Assistant, content = response, timestamp = now\<rparr>])\<rparr>,
                      [])))
      | _ \<Rightarrow> (s, []))"

text \<open>The listener of \<open>chrome.tabs.onRemoved\<close>.\<close>

definition onRemoved :: "int \<Rightarrow> BackgroundState \<Rightarrow> BackgroundState" where
  "onRemoved tabId s =
     s\<lparr>transcriptStore := (transcriptStore s)(tabId := None),
       chatHistoryStore := (chatHistoryStore s)(tabId := None)\<rparr>"

text \<open>The two exported queries; \<open>tabId\<close> is again \<open>tabs[0]?.id\<close>.\<close>

definition getTranscriptForCurrentTab :: "int option \<Rightarrow> BackgroundState \<Rightarrow> TranscriptResult option" where
  "getTranscriptForCurrentTab tabId s =
     (case tabId of
        None \<Rightarrow> None
      | Some t \<Rightarrow> if t = 0 then None else transcriptStore s t)"

definition getChatHistoryForCurrentTab :: "int option \<Rightarrow> BackgroundState \<Rightarrow> ChatMessage list" where
  "getChatHistoryForCurrentTab tabId s =
     (case tabId of
        None \<Rightarrow> []
      | Some t \<Rightarrow>
          if t = 0 then []
          else (case chatHistoryStore s t of Some h \<Rightarrow> h | None \<Rightarrow> []))"

text \<open>The background as an event loop: a message arrives or a tab is closed.\<close>

datatype BackgroundEvent =
    MessageReceived Message "int option" "int option" int
  | TabRemoved int

fun backgroundStep :: "BackgroundState \<Rightarrow> BackgroundEvent \<Rightarrow> BackgroundState" where
  "backgroundStep s (MessageReceived message tabId currentTabId now) =
     fst (backgroundOnMessage message tabId currentTabId now s)"
| "backgroundStep s (TabRemoved tabId) = onRemoved tabId s"

definition backgroundRun :: "BackgroundState \<Rightarrow> BackgroundEvent list \<Rightarrow> BackgroundState" where
  "backgroundRun = foldl backgroundStep"

text \<open>
  An event involves tab \<open>t\<close> when it is a message sent from \<open>t\<close> or handled while \<open>t\<close> is the
  active tab. A closed tab sends nothing and is never the active tab.
\<close>

fun involvesTab :: "int \<Rightarrow> BackgroundEvent \<Rightarrow> bool" where
  "involvesTab t (MessageReceived message tabId currentTabId now) =
     (tabId = Some t \<or> currentTabId = Some t)"
| "involvesTab t (TabRemoved tabId) = False"

section \<open>The Track Selector\<close>

record CaptionTrack =
  languageCode :: string
  isAutoGenerated :: bool
  baseUrl :: string
  trackName :: string

datatype SelectorError = NoCaptionsAvailable

text \<open>
  Modelled from the spec: the Track Selector lives in \<open>contentScript/youtubeTranscript.ts\<close>,
  which is missing. The spec's ranking: manually-created captions rank above auto-generated
  ones; among tracks of the same manual status, English ranks above the others, an exact
  match of the language code before a prefix match; otherwise the first listed wins. An
  empty list fails with \<open>NoCaptionsAvailable\<close>.
\<close>

definition englishRank :: "CaptionTrack \<Rightarrow> nat" where
  "englishRank t =
     (if languageCode t = ''en'' then 0
      else if prefix ''en'' (languageCode t) then 1
      else 2)"

definition ranksAbove :: "CaptionTrack \<Rightarrow> CaptionTrack \<Rightarrow> bool" where
  "ranksAbove a b \<longleftrightarrow>
     (\<not> isAutoGenerated a \<and> isAutoGenerated b) \<or>
     (isAutoGenerated a = isAutoGenerated b \<and> englishRank a < englishRank b)"

fun selectTrack :: "CaptionTrack list \<Rightarrow> SelectorError + CaptionTrack" where
  "selectTrack [] = Inl NoCaptionsAvailable"
| "selectTrack (t # ts) =
     Inr (foldl (\<lambda>best candidate. if ranksAbove candidate best then candidate else best) t ts)"

section \<open>Concrete pages and results\<close>

definition watchA :: Location where
  "watchA =
     \<lparr>href = ''https://www.youtube.com/watch?v=AAA'', hostname = ''www.youtube.com'',
      pathname = ''/watch'', search = ''?v=AAA''\<rparr>"

text \<open>The same video as \<open>watchA\<close>, with a start time in the URL.\<close>

definition watchA_at :: Location where
  "watchA_at =
     \<lparr>href = ''https://www.youtube.com/watch?v=AAA&t=10s'', hostname = ''www.youtube.com'',
      pathname = ''/watch'', search = ''?v=AAA&t=10s''\<rparr>"

definition watchB :: Location where
  "watchB =
     \<lparr>href = ''https://www.youtube.com/watch?v=BBB'', hostname = ''www.youtube.com'',
      pathname = ''/watch'', search = ''?v=BBB''\<rparr>"

definition homePage :: Location where
  "homePage =
     \<lparr>href = ''https://www.youtube.com/'', hostname = ''www.youtube.com'',
      pathname = ''/'', search = []\<rparr>"

definition loadedResult :: "string \<Rightarrow> TranscriptResult" where
  "loadedResult v =
     \<lparr>success = True, videoId = Some v, transcript = Some [], metadata = None, error = None\<rparr>"

definition failedResult :: TranscriptResult where
  "failedResult =
     \<lparr>success = False, videoId = None, transcript = None, metadata = None,
      error = Some ''No captions available''\<rparr>"

definition manualSpanish :: CaptionTrack where
  "manualSpanish =
     \<lparr>languageCode = ''es'', isAutoGenerated = False, baseUrl = ''u1'', trackName = ''Spanish''\<rparr>"

definition autoEnglish :: CaptionTrack where
  "autoEnglish =
     \<lparr>languageCode = ''en'', isAutoGenerated = True, baseUrl = ''u2'',
      trackName = ''English (auto-generated)''\<rparr>"

text \<open>
  The background after tab 3 has reported the transcript of video \<open>OLD\<close> and one question
  was asked there, and after tab 7 has reported the transcript of video \<open>XYZ\<close>.
\<close>

definition tab3State :: BackgroundState where
  "tab3State =
     \<lparr>transcriptStore = [3 \<mapsto> loadedResult ''OLD''],
      chatHistoryStore = [3 \<mapsto> [\<lparr>role = User, content = ''What is this about?'', timestamp = 1\<rparr>]]\<rparr>"

definition tab7State :: BackgroundState where
  "tab7State =
     \<lparr>transcriptStore = [7 \<mapsto> loadedResult ''XYZ''],
      chatHistoryStore = [7 \<mapsto> [\<lparr>role = User, content = ''Summarize'', timestamp = 1\<rparr>]]\<rparr>"

text \<open>The page once the first extraction on \<open>watchA\<close> has reported its transcript.\<close>

definition settledOnA :: ContentState where
  "settledOnA = run (loadPage watchA) [DomReady, TimerFires, Resolved 0 (loadedResult ''AAA'')]"

section \<open>Facts about the concrete pages\<close>

lemmas page_defs =
  watchA_def watchA_at_def watchB_def homePage_def loadedResult_def failedResult_def

lemmas url_defs =
  getVideoId_def URLSearchParams_def URLSearchParams_get_def parsePair_def plusToSpace_def
  isYouTubeVideoPage_def

lemmas script_defs =
  run_def loadPage_def initializeContentScript_def sendMessage_def extractAndSendTranscript_def
  extractionResolved_def extractionRejected_def observerCallback_def onMessage_def Let_def

lemma getVideoId_watchA: "getVideoId watchA = Some ''AAA''"
  by (simp add: page_defs url_defs)

lemma getVideoId_watchA_at: "getVideoId watchA_at = Some ''AAA''"
  by (simp add: page_defs url_defs)

lemma getVideoId_watchB: "getVideoId watchB = Some ''BBB''"
  by (simp add: page_defs url_defs)

lemma video_page_watchA: "isYouTubeVideoPage watchA"
  by (simp add: page_defs url_defs)

lemma video_page_watchA_at: "isYouTubeVideoPage watchA_at"
  by (simp add: page_defs url_defs)

lemma video_page_watchB: "isYouTubeVideoPage watchB"
  by (simp add: page_defs url_defs)

lemma no_video_page_homePage: "\<not> isYouTubeVideoPage homePage"
  by (simp add: page_defs url_defs)

lemma href_distinct:
  "href watchA \<noteq> href watchB" "href watchB \<noteq> href watchA"
  "href watchA \<noteq> href watchA_at" "href watchA_at \<noteq> href watchA"
  "href homePage \<noteq> href watchA" "href watchA \<noteq> href homePage"
  by (simp_all add: page_defs)

lemma settledOnA_eq:
  "settledOnA =
     \<lparr>location = watchA, currentVideoId = Some ''AAA'',
      transcriptCache = Some (loadedResult ''AAA''), lastUrl = href watchA, timers = 0,
      pending = [], extractions = [Some ''AAA''],
      sent = [SidebarLoaded True, TranscriptLoaded (loadedResult ''AAA'')]\<rparr>"
  by (simp add: settledOnA_def script_defs getVideoId_watchA video_page_watchA)
     (simp add: loadedResult_def)

section \<open>The observer and the cache check\<close>

lemma run_Nil: "run s [] = s"
  by (simp add: run_def)

lemma run_Cons: "run s (e # es) = run (step s e) es"
  by (simp add: run_def)

lemma observerCallback_same_url: "href (location s) = lastUrl s \<Longrightarrow> observerCallback s = s"
  by (simp add: observerCallback_def)

lemma ticks_same_url:
  "\<forall>loc \<in> set locs. href loc = lastUrl s \<Longrightarrow>
   run s (concat (map (\<lambda>loc. [Navigate loc, Mutation]) locs)) =
     s\<lparr>location := last (location s # locs)\<rparr>"
proof (induction locs arbitrary: s)
  case Nil
  then show ?case by (simp add: run_Nil)
next
  case (Cons l locs)
  let ?s1 = "s\<lparr>location := l\<rparr>"
  from Cons.prems have l: "href l = lastUrl s"
    and rest: "\<forall>loc \<in> set locs. href loc = lastUrl ?s1"
    by simp_all
  have "step (step s (Navigate l)) Mutation = ?s1"
    using l by (simp add: observerCallback_same_url)
  then have "run s (concat (map (\<lambda>loc. [Navigate loc, Mutation]) (l # locs)))
      = run ?s1 (concat (map (\<lambda>loc. [Navigate loc, Mutation]) locs))"
    by (simp add: run_Cons)
  also have "\<dots> = ?s1\<lparr>location := last (location ?s1 # locs)\<rparr>"
    using Cons.IH [OF rest] .
  also have "\<dots> = s\<lparr>location := last (location s # l # locs)\<rparr>"
    by simp
  finally show ?case .
qed

text \<open>
  C1, as the code has it. The observer compares the whole \<open>location.href\<close> with \<open>lastUrl\<close>,
  not the video identifier. Over any sequence of observer calls at each of which the page's
  \<open>href\<close> is the last-seen URL (the page may set its location again in between, to any
  \<open>locs\<close> with that \<open>href\<close>), the script does nothing: no extraction is started, no timer
  is set, nothing is sent, and the cache and \<open>currentVideoId\<close> stay as they were.
\<close>

theorem observer_same_url_no_extraction:
  assumes "\<forall>loc \<in> set locs. href loc = lastUrl s"
  shows "(let s' = run s (concat (map (\<lambda>loc. [Navigate loc, Mutation]) locs)) in
          s' = s\<lparr>location := last (location s # locs)\<rparr> \<and>
          extractions s' = extractions s \<and> pending s' = pending s \<and> timers s' = timers s \<and>
          currentVideoId s' = currentVideoId s \<and> transcriptCache s' = transcriptCache s \<and>
          sent s' = sent s)"
  using ticks_same_url [OF assms] by (simp add: Let_def)

theorem observer_same_url_no_extraction_witness:
  "href watchA = lastUrl settledOnA \<and>
   extractions (run settledOnA [Navigate watchA, Mutation, Navigate watchA, Mutation])
     = [Some ''AAA'']"
  using observer_same_url_no_extraction [of "[watchA, watchA]" settledOnA]
  by (simp add: settledOnA_eq Let_def)

text \<open>
  C1 as stated fails: the page goes from \<open>watch?v=AAA\<close> to \<open>watch?v=AAA&t=10s\<close>. The video
  identifier is \<open>AAA\<close> at every observer call, yet the URL differs from \<open>lastUrl\<close>, the cache
  is cleared and the timer's call extracts \<open>AAA\<close> a second time.
\<close>

theorem same_video_new_url_extracts_again:
  "getVideoId watchA = Some ''AAA'' \<and> getVideoId watchA_at = Some ''AAA'' \<and>
   extractions settledOnA = [Some ''AAA''] \<and>
   extractions (run settledOnA [Navigate watchA_at, Mutation, TimerFires])
     = [Some ''AAA'', Some ''AAA'']"
  by (simp add: settledOnA_eq getVideoId_watchA getVideoId_watchA_at video_page_watchA_at
      href_distinct script_defs)

text \<open>
  C3. A call of \<open>extractAndSendTranscript\<close> while the URL's video identifier is
  \<open>currentVideoId\<close> and \<open>transcriptCache\<close> is not null changes nothing: no call of
  \<open>extractVideoTranscript\<close>, no message, the same \<open>currentVideoId\<close> and \<open>transcriptCache\<close>;
  and so does any number \<open>n\<close> of such calls in a row.
\<close>

theorem extractAndSendTranscript_cached_noop:
  assumes "getVideoId (location s) = currentVideoId s" and "transcriptCache s \<noteq> None"
  shows "extractAndSendTranscript s = s \<and>
         (extractAndSendTranscript ^^ n) s = s \<and>
         extractions (extractAndSendTranscript s) = extractions s \<and>
         pending (extractAndSendTranscript s) = pending s \<and>
         sent (extractAndSendTranscript s) = sent s \<and>
         currentVideoId (extractAndSendTranscript s) = currentVideoId s \<and>
         transcriptCache (extractAndSendTranscript s) = transcriptCache s"
proof -
  have once: "extractAndSendTranscript s = s"
    using assms by (simp add: extractAndSendTranscript_def)
  have "(extractAndSendTranscript ^^ n) s = s"
    by (induction n) (simp_all add: once)
  with once show ?thesis by simp
qed

theorem extractAndSendTranscript_cached_noop_witness:
  "getVideoId (location settledOnA) = currentVideoId settledOnA \<and>
   transcriptCache settledOnA \<noteq> None \<and>
   extractAndSendTranscript settledOnA = settledOnA \<and>
   (extractAndSendTranscript ^^ 3) settledOnA = settledOnA"
  using extractAndSendTranscript_cached_noop [of settledOnA 3]
  by (simp add: settledOnA_eq getVideoId_watchA)

section \<open>Rapid navigation\<close>

lemma extractionResolved_eq:
  "i < length (pending s) \<Longrightarrow>
   extractionResolved i r s =
     s\<lparr>pending := take i (pending s) @ drop (Suc i) (pending s),
       currentVideoId := pending s ! i,
       transcriptCache := Some r,
       sent := sent s @ [if success r then TranscriptLoaded r else TranscriptError (error r)]\<rparr>"
  by (simp add: extractionResolved_def sendMessage_def Let_def)

lemma extract_on_empty_cache:
  "transcriptCache s = None \<Longrightarrow>
   extractAndSendTranscript s =
     s\<lparr>pending := pending s @ [getVideoId (location s)],
       extractions := extractions s @ [getVideoId (location s)]\<rparr>"
  by (simp add: extractAndSendTranscript_def Let_def)

lemma extract_on_cache_hit:
  "getVideoId (location s) = currentVideoId s \<Longrightarrow> transcriptCache s \<noteq> None \<Longrightarrow>
   extractAndSendTranscript s = s"
  by (simp add: extractAndSendTranscript_def Let_def)

lemma observer_new_video_page:
  "href (location s) \<noteq> lastUrl s \<Longrightarrow> isYouTubeVideoPage (location s) \<Longrightarrow>
   observerCallback s =
     s\<lparr>lastUrl := href (location s), currentVideoId := None, transcriptCache := None,
       timers := Suc (timers s)\<rparr>"
  by (simp add: observerCallback_def Let_def)

text \<open>
  C2, as the code has it. The page holds no timer and no suspended extraction, then goes to
  video page B and back to video page A, the observer running after each change and no timer
  running out in between. Each observer call clears the cache and sets a timer of its own;
  no timer is cancelled, so two are left. If the first timer's extraction resolves before the
  second timer runs out, the second finds the cache filled for A and does nothing: one
  extraction, one report. If both timers run out first, two extractions are started for A
  and both report; the cache ends with the one that resolved last. Either way the page ends
  with \<open>currentVideoId\<close> the identifier of A. And whenever a suspended
  extraction resolves, its result is written under the identifier it read when it began,
  whatever the cache and the URL are by then.
\<close>

theorem rapid_navigation_settles_on_last_url:
  assumes "isYouTubeVideoPage locB" and "isYouTubeVideoPage locA"
    and "href locB \<noteq> lastUrl s" and "href locA \<noteq> href locB"
    and "timers s = 0" and "pending s = []"
  shows "(let s2 = run s [Navigate locB, Mutation, Navigate locA, Mutation] in
            s2 = s\<lparr>location := locA, lastUrl := href locA, currentVideoId := None,
                   transcriptCache := None, timers := 2\<rparr> \<and>
            (let s3 = run s2 [TimerFires, Resolved 0 r1, TimerFires] in
               currentVideoId s3 = getVideoId locA \<and> transcriptCache s3 = Some r1 \<and>
               extractions s3 = extractions s @ [getVideoId locA] \<and>
               sent s3 = sent s @ [if success r1 then TranscriptLoaded r1
                                   else TranscriptError (error r1)] \<and>
               timers s3 = 0 \<and> pending s3 = []) \<and>
            (let s4 = run s2 [TimerFires, TimerFires, Resolved 0 r1, Resolved 0 r2] in
               currentVideoId s4 = getVideoId locA \<and> transcriptCache s4 = Some r2 \<and>
               extractions s4 = extractions s @ [getVideoId locA, getVideoId locA] \<and>
               sent s4 = sent s @ [if success r1 then TranscriptLoaded r1
                                   else TranscriptError (error r1),
                                   if success r2 then TranscriptLoaded r2
                                   else TranscriptError (error r2)] \<and>
               timers s4 = 0 \<and> pending s4 = [])) \<and>
         (\<forall>t i r. i < length (pending t) \<longrightarrow>
            currentVideoId (extractionResolved i r t) = pending t ! i \<and>
            transcriptCache (extractionResolved i r t) = Some r)"
proof -
  let ?v = "getVideoId locA"
  let ?m1 = "if success r1 then TranscriptLoaded r1 else TranscriptError (error r1)"
  let ?m2 = "if success r2 then TranscriptLoaded r2 else TranscriptError (error r2)"
  let ?s2 = "s\<lparr>location := locA, lastUrl := href locA, currentVideoId := None,
                transcriptCache := None, timers := 2\<rparr>"
  let ?a = "?s2\<lparr>timers := 1, pending := [?v], extractions := extractions s @ [?v]\<rparr>"
  let ?b = "?a\<lparr>pending := [], currentVideoId := ?v, transcriptCache := Some r1,
               sent := sent s @ [?m1]\<rparr>"
  let ?c = "?a\<lparr>timers := 0, pending := [?v, ?v], extractions := extractions s @ [?v, ?v]\<rparr>"
  let ?d = "?c\<lparr>pending := [?v], currentVideoId := ?v, transcriptCache := Some r1,
               sent := sent s @ [?m1]\<rparr>"
  let ?e = "?d\<lparr>pending := [], currentVideoId := ?v, transcriptCache := Some r2,
               sent := sent s @ [?m1, ?m2]\<rparr>"
  have nav: "run s [Navigate locB, Mutation, Navigate locA, Mutation] = ?s2"
    using assms by (simp add: run_Cons run_Nil observer_new_video_page)
  have a: "step ?s2 TimerFires = ?a"
    using assms by (simp add: extract_on_empty_cache)
  have b: "step ?a (Resolved 0 r1) = ?b"
    using assms by (simp add: extractionResolved_eq)
  have b': "step ?b TimerFires = ?b\<lparr>timers := 0\<rparr>"
    by (simp add: extract_on_cache_hit)
  have c: "step ?a TimerFires = ?c"
    using assms by (simp add: extract_on_empty_cache)
  have d: "step ?c (Resolved 0 r1) = ?d"
    by (simp add: extractionResolved_eq)
  have e: "step ?d (Resolved 0 r2) = ?e"
    by (simp add: extractionResolved_eq)
  have s3: "run ?s2 [TimerFires, Resolved 0 r1, TimerFires] = ?b\<lparr>timers := 0\<rparr>"
    by (simp only: run_Cons run_Nil a b b')
  have s4: "run ?s2 [TimerFires, TimerFires, Resolved 0 r1, Resolved 0 r2] = ?e"
    by (simp only: run_Cons run_Nil a c d e)
  have late: "\<forall>t i r. i < length (pending t) \<longrightarrow>
      currentVideoId (extractionResolved i r t) = pending t ! i \<and>
      transcriptCache (extractionResolved i r t) = Some r"
    by (simp add: extractionResolved_eq)
  show ?thesis
    unfolding Let_def nav s3 s4 using late by simp
qed

theorem rapid_navigation_settles_on_last_url_witness:
  "isYouTubeVideoPage watchB \<and> isYouTubeVideoPage watchA \<and>
   href watchB \<noteq> lastUrl settledOnA \<and> href watchA \<noteq> href watchB \<and>
   timers settledOnA = 0 \<and> pending settledOnA = [] \<and>
   currentVideoId
     (run (run settledOnA [Navigate watchB, Mutation, Navigate watchA, Mutation])
        [TimerFires, TimerFires, Resolved 0 (loadedResult ''AAA''), Resolved 0 failedResult])
     = Some ''AAA'' \<and>
   transcriptCache
     (run (run settledOnA [Navigate watchB, Mutation, Navigate watchA, Mutation])
        [TimerFires, TimerFires, Resolved 0 (loadedResult ''AAA''), Resolved 0 failedResult])
     = Some failedResult"
proof -
  have url: "href watchB \<noteq> lastUrl settledOnA"
    by (simp add: settledOnA_eq href_distinct)
  have idle: "timers settledOnA = 0" "pending settledOnA = []"
    by (simp_all add: settledOnA_eq)
  let ?s4 = "run (run settledOnA [Navigate watchB, Mutation, Navigate watchA, Mutation])
      [TimerFires, TimerFires, Resolved 0 (loadedResult ''AAA''), Resolved 0 failedResult]"
  from rapid_navigation_settles_on_last_url
    [OF video_page_watchB video_page_watchA url href_distinct(1) idle,
      of "loadedResult ''AAA''" failedResult, unfolded Let_def]
  have "currentVideoId ?s4 = getVideoId watchA" and "transcriptCache ?s4 = Some failedResult"
    by blast+
  then show ?thesis
    using url idle
    by (simp only: video_page_watchA video_page_watchB href_distinct getVideoId_watchA
        simp_thms)
qed

text \<open>
  C2 as stated fails on both counts. First run: from the page settled on A, to B and back to
  A with no timer running out in between; both timers then run out and both extractions
  resolve: the extraction is called twice more and two more transcripts are reported, not
  one. Second run: B's timer runs out while B is shown, the page returns to A (which clears
  the cache), A's extraction resolves, and B's resolves after it: the page shows A while
  \<open>currentVideoId\<close> and \<open>transcriptCache\<close> hold B's result.
\<close>

theorem rapid_navigation_extracts_twice_and_late_result_overwrites:
  "(let s = run settledOnA
       [Navigate watchB, Mutation, Navigate watchA, Mutation,
        TimerFires, TimerFires,
        Resolved 0 (loadedResult ''AAA''), Resolved 0 (loadedResult ''AAA'')]
    in extractions s = [Some ''AAA'', Some ''AAA'', Some ''AAA''] \<and>
       sent s = [SidebarLoaded True, TranscriptLoaded (loadedResult ''AAA''),
                 TranscriptLoaded (loadedResult ''AAA''),
                 TranscriptLoaded (loadedResult ''AAA'')]) \<and>
   (let s = run settledOnA
       [Navigate watchB, Mutation, TimerFires, Navigate watchA, Mutation, TimerFires,
        Resolved 1 (loadedResult ''AAA''), Resolved 0 (loadedResult ''BBB'')]
    in location s = watchA \<and> currentVideoId s = Some ''BBB'' \<and>
       transcriptCache s = Some (loadedResult ''BBB''))"
  by (simp add: settledOnA_eq getVideoId_watchA getVideoId_watchB video_page_watchA
      video_page_watchB href_distinct script_defs)
     (simp add: loadedResult_def)

section \<open>Leaving the video page\<close>

text \<open>
  C4, as the code has it. When the observer finds a new URL that is not a video page, it
  records the URL and sets \<open>currentVideoId\<close> and \<open>transcriptCache\<close> to null, and that is
  all: nothing is sent, no timer is set, no extraction is started.
\<close>

theorem leaving_video_page_clears_cache_only:
  assumes "href (location s) \<noteq> lastUrl s" and "\<not> isYouTubeVideoPage (location s)"
  shows "observerCallback s =
           s\<lparr>lastUrl := href (location s), currentVideoId := None, transcriptCache := None\<rparr> \<and>
         currentVideoId (observerCallback s) = None \<and>
         transcriptCache (observerCallback s) = None \<and>
         sent (observerCallback s) = sent s \<and>
         timers (observerCallback s) = timers s \<and>
         pending (observerCallback s) = pending s \<and>
         extractions (observerCallback s) = extractions s"
  using assms by (simp add: observerCallback_def Let_def)

theorem leaving_video_page_clears_cache_only_witness:
  "href (location (step settledOnA (Navigate homePage)))
     \<noteq> lastUrl (step settledOnA (Navigate homePage)) \<and>
   \<not> isYouTubeVideoPage (location (step settledOnA (Navigate homePage))) \<and>
   currentVideoId (observerCallback (step settledOnA (Navigate homePage))) = None \<and>
   transcriptCache (observerCallback (step settledOnA (Navigate homePage))) = None \<and>
   timers (observerCallback (step settledOnA (Navigate homePage))) = 0"
  using leaving_video_page_clears_cache_only [of "step settledOnA (Navigate homePage)"]
  by (simp add: settledOnA_eq no_video_page_homePage href_distinct)

text \<open>
  C4 as stated fails: the page settled on A goes to the home page; after the observer has
  run, the messages sent are the two sent before, and \<open>noVideoPage\<close> is not among them.
\<close>

theorem leaving_video_page_sends_nothing:
  "\<not> isYouTubeVideoPage homePage \<and> href homePage \<noteq> lastUrl settledOnA \<and>
   sent settledOnA = [SidebarLoaded True, TranscriptLoaded (loadedResult ''AAA'')] \<and>
   sent (run settledOnA [Navigate homePage, Mutation])
     = [SidebarLoaded True, TranscriptLoaded (loadedResult ''AAA'')] \<and>
   NoVideoPage \<notin> set (sent (run settledOnA [Navigate homePage, Mutation]))"
  by (simp add: settledOnA_eq no_video_page_homePage href_distinct script_defs)

section \<open>The transcript request in the page\<close>

text \<open>
  C8. The page's listener answers \<open>getTranscript\<close> at once and from the cache alone: with
  \<open>{success: true, data}\<close> holding the cached result when there is one, with
  \<open>{success: false, error: "No transcript available"}\<close> when there is none. The state is
  left as it was, so no extraction is started and no timer is set.
\<close>

theorem getTranscript_answered_from_cache:
  "(\<forall>cached. transcriptCache s = Some cached \<longrightarrow>
       fst (onMessage GetTranscript s) = Some (SuccessData cached)) \<and>
   (transcriptCache s = None \<longrightarrow>
       fst (onMessage GetTranscript s) = Some (FailureError ''No transcript available'')) \<and>
   fst (onMessage GetTranscript s) \<noteq> None \<and>
   snd (onMessage GetTranscript s) = s \<and>
   step s (Request GetTranscript) = s"
  by (simp add: onMessage_def split: option.split)

theorem getTranscript_answered_from_cache_witness:
  "transcriptCache (loadPage watchA) = None \<and>
   fst (onMessage GetTranscript (loadPage watchA))
     = Some (FailureError ''No transcript available'') \<and>
   transcriptCache settledOnA = Some (loadedResult ''AAA'') \<and>
   fst (onMessage GetTranscript settledOnA) = Some (SuccessData (loadedResult ''AAA''))"
  using getTranscript_answered_from_cache [of "loadPage watchA"]
        getTranscript_answered_from_cache [of settledOnA]
  by (simp add: settledOnA_eq loadPage_def)

text \<open>
  C10. When a suspended extraction resolves, its result is cached whether it is a success
  or a failure. After a failure the error has been reported with \<open>transcriptError\<close>, the
  failed result is in the cache, and \<open>getTranscript\<close> is answered with
  \<open>{success: true, data}\<close> whose \<open>data\<close> is that failed result.
\<close>

theorem failed_extraction_is_cached_and_served:
  assumes "i < length (pending s)"
  shows "(let s' = extractionResolved i result s in
           transcriptCache s' = Some result \<and>
           currentVideoId s' = pending s ! i \<and>
           fst (onMessage GetTranscript s') = Some (SuccessData result) \<and>
           (\<not> success result \<longrightarrow> sent s' = sent s @ [TranscriptError (error result)]))"
  using assms by (simp add: extractionResolved_def onMessage_def sendMessage_def Let_def)

theorem failed_extraction_is_cached_and_served_witness:
  "(0::nat) < length (pending (run (loadPage watchA) [DomReady, TimerFires])) \<and>
   \<not> success failedResult \<and>
   transcriptCache (run (loadPage watchA) [DomReady, TimerFires, Resolved 0 failedResult])
     = Some failedResult \<and>
   fst (onMessage GetTranscript
          (run (loadPage watchA) [DomReady, TimerFires, Resolved 0 failedResult]))
     = Some (SuccessData failedResult)"
  using failed_extraction_is_cached_and_served
    [of 0 "run (loadPage watchA) [DomReady, TimerFires]" failedResult]
  by (simp add: script_defs getVideoId_watchA video_page_watchA) (simp add: failedResult_def)

section \<open>The background's stores\<close>

lemma backgroundRun_Cons:
  "backgroundRun s (e # es) = backgroundRun (backgroundStep s e) es"
  by (simp add: backgroundRun_def)

lemma backgroundRun_append:
  "backgroundRun s (es @ es') = backgroundRun (backgroundRun s es) es'"
  by (simp add: backgroundRun_def)

text \<open>
  C5, as the code has it. On \<open>transcriptError\<close> the background passes the error on to the
  panel and does nothing else: both stores stay as they were, so every query is answered as
  before the error, the whole run that follows is the one that would have followed without
  the error, and no retry is started. No error is recorded for the tab.
\<close>

theorem transcriptError_is_forwarded_not_stored:
  "backgroundOnMessage (TranscriptError payload) tabId currentTabId now s
     = (s, [Forward (TranscriptError payload)]) \<and>
   getTranscriptForCurrentTab queried
       (backgroundStep s (MessageReceived (TranscriptError payload) tabId currentTabId now))
     = getTranscriptForCurrentTab queried s \<and>
   backgroundRun s (MessageReceived (TranscriptError payload) tabId currentTabId now # es)
     = backgroundRun s es"
  by (simp add: backgroundOnMessage_def backgroundRun_Cons)

text \<open>
  C5 as stated fails: tab 3 has the transcript of \<open>OLD\<close> stored and reports an error. The
  store still holds the transcript of \<open>OLD\<close> for tab 3, and a \<open>getTranscript\<close> request with
  tab 3 active is answered with it, as a success.
\<close>

theorem transcriptError_leaves_old_transcript:
  "transcriptStore
     (backgroundStep tab3State
        (MessageReceived (TranscriptError (Some ''No captions available'')) (Some 3) (Some 3) 2))
     3 = Some (loadedResult ''OLD'') \<and>
   getTranscriptForCurrentTab (Some 3)
     (backgroundStep tab3State
        (MessageReceived (TranscriptError (Some ''No captions available'')) (Some 3) (Some 3) 2))
     = Some (loadedResult ''OLD'') \<and>
   snd (backgroundOnMessage GetTranscript None (Some 3) 3
     (backgroundStep tab3State
        (MessageReceived (TranscriptError (Some ''No captions available'')) (Some 3) (Some 3) 2)))
     = [Respond (SuccessData (loadedResult ''OLD''))]"
  by (simp add: tab3State_def backgroundOnMessage_def getTranscriptForCurrentTab_def)

text \<open>
  C6. A \<open>transcriptLoaded\<close> message from tab \<open>t\<close> (an id that passes \<open>if (tabId)\<close>) whose
  \<open>videoId\<close> differs from the one stored for \<open>t\<close>: afterwards the store holds the payload
  for \<open>t\<close>, \<open>t\<close> has no chat history, the entries of every other tab are as before, and the
  transcript is passed on to the panel. The clearing happens once: when the same message is
  delivered again, even after a history \<open>h\<close> has been recorded for \<open>t\<close> in the meantime,
  that history stays.
\<close>

theorem new_video_replaces_transcript_and_clears_chat:
  assumes "t \<noteq> 0"
    and "Option.bind (transcriptStore s t) videoId \<noteq> videoId payload"
  shows "(let s' = fst (backgroundOnMessage (TranscriptLoaded payload) (Some t) currentTabId now s) in
           transcriptStore s' t = Some payload \<and>
           chatHistoryStore s' t = None \<and>
           (\<forall>u. u \<noteq> t \<longrightarrow> transcriptStore s' u = transcriptStore s u \<and>
                            chatHistoryStore s' u = chatHistoryStore s u) \<and>
           snd (backgroundOnMessage (TranscriptLoaded payload) (Some t) currentTabId now s)
             = [Forward (TranscriptLoaded payload)] \<and>
           backgroundOnMessage (TranscriptLoaded payload) (Some t) currentTabId' now' s'
             = (s', [Forward (TranscriptLoaded payload)]) \<and>
           (\<forall>h. chatHistoryStore
                  (fst (backgroundOnMessage (TranscriptLoaded payload) (Some t) currentTabId' now'
                     (s'\<lparr>chatHistoryStore := (chatHistoryStore s')(t \<mapsto> h)\<rparr>))) t
                = Some h))"
  using assms
  by (auto simp add: backgroundOnMessage_def Let_def fun_upd_idem)

theorem new_video_replaces_transcript_and_clears_chat_witness:
  "(3::int) \<noteq> 0 \<and>
   Option.bind (transcriptStore tab3State 3) videoId \<noteq> videoId (loadedResult ''NEW'') \<and>
   chatHistoryStore tab3State 3 \<noteq> None \<and>
   transcriptStore
     (fst (backgroundOnMessage (TranscriptLoaded (loadedResult ''NEW'')) (Some 3) (Some 3) 5
        tab3State)) 3
     = Some (loadedResult ''NEW'') \<and>
   chatHistoryStore
     (fst (backgroundOnMessage (TranscriptLoaded (loadedResult ''NEW'')) (Some 3) (Some 3) 5
        tab3State)) 3
     = None"
  using new_video_replaces_transcript_and_clears_chat
    [of 3 tab3State "loadedResult ''NEW''" "Some 3" 5 "Some 3" 5]
  by (simp add: tab3State_def loadedResult_def Let_def)

lemma step_keeps_closed:
  assumes "\<not> involvesTab t e"
    and "transcriptStore s t = None" and "chatHistoryStore s t = None"
  shows "transcriptStore (backgroundStep s e) t = None \<and>
         chatHistoryStore (backgroundStep s e) t = None"
  using assms
  by (cases e)
     (auto simp add: backgroundOnMessage_def onRemoved_def Let_def
        split: Message.splits option.splits)

lemma run_keeps_closed:
  "\<forall>e \<in> set es. \<not> involvesTab t e \<Longrightarrow>
   transcriptStore s t = None \<Longrightarrow> chatHistoryStore s t = None \<Longrightarrow>
   transcriptStore (backgroundRun s es) t = None \<and>
   chatHistoryStore (backgroundRun s es) t = None"
proof (induction es arbitrary: s)
  case Nil
  then show ?case by (simp add: backgroundRun_def)
next
  case (Cons e es)
  from Cons.prems have "\<not> involvesTab t e" by simp
  from step_keeps_closed [OF this Cons.prems(2,3)] Cons.prems(1)
    Cons.IH [of "backgroundStep s e"]
  show ?case by (simp add: backgroundRun_Cons)
qed

text \<open>
  C7. Whatever happened before (\<open>earlier\<close>), once the removal of tab \<open>t\<close> has been handled
  and for as long as no message comes from \<open>t\<close> or is handled with \<open>t\<close> as the active tab
  (\<open>later\<close>: a closed tab sends nothing and is not active), neither store has an entry for
  \<open>t\<close>, and each of the three queries for \<open>t\<close> returns no state: null, the empty history,
  and the failure response.
\<close>

theorem closed_tab_has_no_state:
  assumes "\<forall>e \<in> set later. \<not> involvesTab t e"
  shows "(let s' = backgroundRun s (earlier @ TabRemoved t # later) in
           transcriptStore s' t = None \<and>
           chatHistoryStore s' t = None \<and>
           getTranscriptForCurrentTab (Some t) s' = None \<and>
           getChatHistoryForCurrentTab (Some t) s' = [] \<and>
           snd (backgroundOnMessage GetTranscript tabId (Some t) now s')
             = [Respond (FailureError ''No transcript available for current tab'')])"
proof -
  let ?closed = "onRemoved t (backgroundRun s earlier)"
  have closed: "transcriptStore ?closed t = None \<and> chatHistoryStore ?closed t = None"
    by (simp add: onRemoved_def)
  have run: "backgroundRun s (earlier @ TabRemoved t # later) = backgroundRun ?closed later"
    by (simp add: backgroundRun_append backgroundRun_Cons)
  from run_keeps_closed [OF assms, of ?closed] closed
  have "transcriptStore (backgroundRun ?closed later) t = None \<and>
        chatHistoryStore (backgroundRun ?closed later) t = None"
    by simp
  then show ?thesis
    by (simp add: run Let_def getTranscriptForCurrentTab_def getChatHistoryForCurrentTab_def
        backgroundOnMessage_def)
qed

theorem closed_tab_has_no_state_witness:
  "\<not> involvesTab 7 (MessageReceived GetTranscript None (Some 2) 9) \<and>
   transcriptStore tab7State 7 = Some (loadedResult ''XYZ'') \<and>
   getTranscriptForCurrentTab (Some 7)
     (backgroundRun tab7State [TabRemoved 7, MessageReceived GetTranscript None (Some 2) 9])
     = None \<and>
   transcriptStore
     (backgroundRun tab7State [TabRemoved 7, MessageReceived GetTranscript None (Some 2) 9]) 7
     = None \<and>
   chatHistoryStore
     (backgroundRun tab7State [TabRemoved 7, MessageReceived GetTranscript None (Some 2) 9]) 7
     = None"
  using closed_tab_has_no_state
    [of "[MessageReceived GetTranscript None (Some 2) 9]" 7 tab7State "[]"]
  by (simp add: tab7State_def Let_def)

section \<open>The Track Selector's choice\<close>

lemma pick_in_set:
  "foldl (\<lambda>best candidate. if ranksAbove candidate best then candidate else best) t ts
     \<in> set (t # ts)"
  by (induction ts arbitrary: t) auto

lemma pick_stays_manual:
  "\<not> isAutoGenerated t \<Longrightarrow>
   \<not> isAutoGenerated
       (foldl (\<lambda>best candidate. if ranksAbove candidate best then candidate else best) t ts)"
  by (induction ts arbitrary: t) (auto simp add: ranksAbove_def)

lemma pick_finds_manual:
  "m \<in> set ts \<Longrightarrow> \<not> isAutoGenerated m \<Longrightarrow>
   \<not> isAutoGenerated
       (foldl (\<lambda>best candidate. if ranksAbove candidate best then candidate else best) t ts)"
proof (induction ts arbitrary: t)
  case Nil
  then show ?case by simp
next
  case (Cons c ts)
  show ?case
  proof (cases "c = m")
    case True
    with Cons.prems have "\<not> isAutoGenerated (if ranksAbove c t then c else t)"
      by (auto simp add: ranksAbove_def)
    then show ?thesis by (simp add: pick_stays_manual)
  next
    case False
    with Cons.prems have "m \<in> set ts" by simp
    from Cons.IH [OF this Cons.prems(2)] show ?thesis by simp
  qed
qed

text \<open>
  C9. For a list of tracks with a manually-created track \<open>m\<close> and an auto-generated track
  \<open>a\<close>, and for every reordering of that list, the Selector returns a track of the list that
  is manually created.
\<close>

theorem selectTrack_prefers_manual:
  assumes "m \<in> set tracks" and "\<not> isAutoGenerated m"
    and "a \<in> set tracks" and "isAutoGenerated a"
    and "mset reordered = mset tracks"
  shows "\<exists>t. selectTrack reordered = Inr t \<and> t \<in> set tracks \<and> \<not> isAutoGenerated t"
proof -
  have same: "set reordered = set tracks"
    using assms(5) by (rule mset_eq_setD)
  with assms(1) obtain c cs where r: "reordered = c # cs"
    by (cases reordered) auto
  let ?pick = "foldl (\<lambda>best candidate. if ranksAbove candidate best then candidate else best) c cs"
  have "?pick \<in> set tracks"
    using pick_in_set [of c cs] same r by auto
  moreover have "\<not> isAutoGenerated ?pick"
  proof (cases "c = m")
    case True
    with assms(2) show ?thesis by (simp add: pick_stays_manual)
  next
    case False
    with assms(1) same r have "m \<in> set cs" by auto
    then show ?thesis using assms(2) by (rule pick_finds_manual)
  qed
  ultimately show ?thesis by (simp add: r)
qed

theorem selectTrack_prefers_manual_witness:
  "manualSpanish \<in> set [autoEnglish, manualSpanish] \<and> \<not> isAutoGenerated manualSpanish \<and>
   autoEnglish \<in> set [autoEnglish, manualSpanish] \<and> isAutoGenerated autoEnglish \<and>
   selectTrack [autoEnglish, manualSpanish] = Inr manualSpanish \<and>
   selectTrack [manualSpanish, autoEnglish] = Inr manualSpanish"
  using selectTrack_prefers_manual
      [of manualSpanish "[autoEnglish, manualSpanish]" autoEnglish "[autoEnglish, manualSpanish]"]
    selectTrack_prefers_manual
      [of manualSpanish "[autoEnglish, manualSpanish]" autoEnglish "[manualSpanish, autoEnglish]"]
  by (simp add: manualSpanish_def autoEnglish_def ranksAbove_def)

end
